theory Spec2Isabelle
  imports Main
begin

section \<open>Python values, strings and errors\<close>

text \<open>
  The Youtube Assistant consists of \<^verbatim>\<open>config.py\<close> (class \<^verbatim>\<open>Config\<close>: layered
  resolution of the settings) and \<^verbatim>\<open>app.py\<close> (\<^verbatim>\<open>run_agent\<close> and the chat input
  handler). Both are embedded below as functions over explicit state.

  A Python \<^verbatim>\<open>str\<close> is a \<^typ>\<open>string\<close>: the bytes that the operating system holds
  for it, which is UTF-8, so that a character outside ASCII is several bytes. (A
  \<^verbatim>\<open>str\<close> with a surrogate that has no such bytes is outside the model.) The value of
  a configuration entry is a \<open>pyval\<close>: the environment yields \<^verbatim>\<open>str\<close>, \<^verbatim>\<open>int\<close> and
  \<^verbatim>\<open>bool\<close> entries, a JSON document any JSON value (numbers with a fraction are left
  out).
\<close>

datatype pyval =
    PNone
  | PBool bool
  | PInt int
  | PStr string
  | PList "pyval list"
  | PDict "(string \<times> pyval) list"

text \<open>Truth value testing, as \<^verbatim>\<open>not x\<close> and \<^verbatim>\<open>bool(x)\<close> do it.\<close>

fun truthy :: "pyval \<Rightarrow> bool" where
  "truthy PNone = False"
| "truthy (PBool b) = b"
| "truthy (PInt n) = (n \<noteq> 0)"
| "truthy (PStr s) = (s \<noteq> [])"
| "truthy (PList xs) = (xs \<noteq> [])"
| "truthy (PDict kvs) = (kvs \<noteq> [])"


text \<open>
  Exceptions of \<^verbatim>\<open>app.py\<close>: \<open>ValueError m\<close> is a \<^verbatim>\<open>ValueError\<close> with message \<open>m\<close>;
  \<open>EnvironTypeError v\<close> is the \<^verbatim>\<open>TypeError\<close> of \<^verbatim>\<open>os.environ[k] = v\<close> for a \<open>v\<close>
  that is not a \<^verbatim>\<open>str\<close>; the last two carry the text of an exception that comes
  from outside the application (reading the instructions file, the agent runtime).
\<close>

datatype error =
    ValueError string
  | EnvironTypeError pyval
  | InstructionsReadError string
  | AgentInvocationError string

subsection \<open>The string operations the sources use\<close>



text \<open>
  The white space of \<^verbatim>\<open>str.strip()\<close>, each character in UTF-8: U+0009 to U+000D,
  U+001C to U+0020, U+0085, U+00A0, U+1680, U+2000 to U+200A, U+2028, U+2029, U+202F,
  U+205F and U+3000.
\<close>

definition white_space :: "string list" where
  "white_space =
     [[CHR 0x09], [CHR 0x0A], [CHR 0x0B], [CHR 0x0C], [CHR 0x0D],
      [CHR 0x1C], [CHR 0x1D], [CHR 0x1E], [CHR 0x1F], [CHR 0x20],
      [CHR 0xC2, CHR 0x85], [CHR 0xC2, CHR 0xA0], [CHR 0xE1, CHR 0x9A, CHR 0x80],
      [CHR 0xE2, CHR 0x80, CHR 0x80], [CHR 0xE2, CHR 0x80, CHR 0x81],
      [CHR 0xE2, CHR 0x80, CHR 0x82], [CHR 0xE2, CHR 0x80, CHR 0x83],
      [CHR 0xE2, CHR 0x80, CHR 0x84], [CHR 0xE2, CHR 0x80, CHR 0x85],
      [CHR 0xE2, CHR 0x80, CHR 0x86], [CHR 0xE2, CHR 0x80, CHR 0x87],
      [CHR 0xE2, CHR 0x80, CHR 0x88], [CHR 0xE2, CHR 0x80, CHR 0x89],
      [CHR 0xE2, CHR 0x80, CHR 0x8A], [CHR 0xE2, CHR 0x80, CHR 0xA8],
      [CHR 0xE2, CHR 0x80, CHR 0xA9], [CHR 0xE2, CHR 0x80, CHR 0xAF],
      [CHR 0xE2, CHR 0x81, CHR 0x9F], [CHR 0xE3, CHR 0x80, CHR 0x80]]"

text \<open>
  \<open>lstrip_of ws s\<close> removes from the front of \<open>s\<close> every leading occurrence of a member
  of \<open>ws\<close>. \<^verbatim>\<open>str.strip()\<close> does so at both ends; at the end the bytes are matched in
  reverse. It is applied to text decoded from UTF-8, where a match of the bytes is a
  match of the character.
\<close>

fun lstrip_of :: "string list \<Rightarrow> string \<Rightarrow> string" where
  "lstrip_of ws [] = []"
| "lstrip_of ws (c # cs) =
     (case find (\<lambda>w. w \<noteq> [] \<and> take (length w) (c # cs) = w) ws of
        None \<Rightarrow> c # cs
      | Some w \<Rightarrow> lstrip_of ws (drop (length w - 1) cs))"

definition py_strip :: "string \<Rightarrow> string" where
  "py_strip s = rev (lstrip_of (map rev white_space) (rev (lstrip_of white_space s)))"










text \<open>\<^verbatim>\<open>sep.join(xs)\<close>.\<close>

fun py_join :: "string \<Rightarrow> string list \<Rightarrow> string" where
  "py_join sep [] = []"
| "py_join sep [x] = x"
| "py_join sep (x # y # ys) = x @ sep @ py_join sep (y # ys)"

section \<open>config.py: resolution of the settings\<close>

text \<open>
  The process environment \<^verbatim>\<open>os.environ\<close> is a map from names to values. The
  configuration data \<^verbatim>\<open>Config._config_data\<close> is a \<^verbatim>\<open>Dict[str, Any]\<close>.
\<close>

type_synonym env = "string \<rightharpoonup> string"
type_synonym settings = "string \<rightharpoonup> pyval"



definition dict_get :: "settings \<Rightarrow> string \<Rightarrow> pyval \<Rightarrow> pyval" where
  "dict_get c k d = (case c k of None \<Rightarrow> d | Some v \<Rightarrow> v)"




definition default_instructions :: string where
  "default_instructions =
     ''You are a research assistant who uses web search and document search to respond to questions.''"

text \<open>The icon is U+1F3A5, here in UTF-8.\<close>

definition movie_camera :: string where
  "movie_camera = [CHR 0xF0, CHR 0x9F, CHR 0x8E, CHR 0xA5]"



text \<open>\<^verbatim>\<open>Config._get_defaults\<close>.\<close>

definition get_defaults :: settings where
  "get_defaults =
     [''OPENAI_API_KEY'' \<mapsto> PStr [],
      ''VECTOR_STORE_ID'' \<mapsto> PStr [],
      ''MCP_URL'' \<mapsto> PStr [],
      ''APP_TITLE'' \<mapsto> PStr ''Youtube Assistant'',
      ''APP_ICON'' \<mapsto> PStr movie_camera,
      ''MAX_RESULTS_DEFAULT'' \<mapsto> PInt 3,
      ''ENABLE_WEB_SEARCH_DEFAULT'' \<mapsto> PBool True,
      ''ENABLE_DOCUMENT_SEARCH_DEFAULT'' \<mapsto> PBool False,
      ''ENABLE_MCP_SEARCH_DEFAULT'' \<mapsto> PBool False,
      ''AGENT_NAME'' \<mapsto> PStr ''Youtube Assistant'',
      ''AGENT_INSTRUCTIONS'' \<mapsto> PStr default_instructions,
      ''AGENT_MODEL'' \<mapsto> PStr ''gpt-4o-mini'']"



text \<open>The properties of \<^verbatim>\<open>Config\<close>, each \<^verbatim>\<open>self._config_data.get(key, default)\<close>.\<close>

definition OPENAI_API_KEY :: "settings \<Rightarrow> pyval" where
  "OPENAI_API_KEY c = dict_get c ''OPENAI_API_KEY'' (PStr [])"

definition VECTOR_STORE_ID :: "settings \<Rightarrow> pyval" where
  "VECTOR_STORE_ID c = dict_get c ''VECTOR_STORE_ID'' (PStr [])"








definition AGENT_NAME :: "settings \<Rightarrow> pyval" where
  "AGENT_NAME c = dict_get c ''AGENT_NAME'' (PStr ''Youtube Assistant'')"


definition AGENT_MODEL :: "settings \<Rightarrow> pyval" where
  "AGENT_MODEL c = dict_get c ''AGENT_MODEL'' (PStr ''gpt-4o-mini'')"

section \<open>app.py: one agent invocation\<close>

text \<open>The tools of the agents SDK, with the arguments \<^verbatim>\<open>run_agent\<close> gives them.\<close>

datatype tool =
    WebSearchTool
  | FileSearchTool (max_num_results: int) (vector_store_ids: "pyval list")

record agent =
  name :: pyval
  instructions :: string
  tools :: "tool list"
  model :: pyval

record search_metadata =
  sources_enabled :: "string list"
  web_search :: bool
  document_search :: bool
  max_doc_results :: "int option"

record agent_result =
  response :: string
  metadata :: search_metadata

datatype role = User | Assistant

record message =
  role :: role
  content :: string
  message_metadata :: "search_metadata option"

text \<open>
  What \<^verbatim>\<open>run_agent\<close> reads from outside the program:
  \<^item> \<open>agent_instructions_txt\<close>: \<open>None\<close> when opening \<^verbatim>\<open>agent_instructions.txt\<close>
    raises \<^verbatim>\<open>FileNotFoundError\<close>; otherwise the text read, or another exception;
  \<^item> \<open>Runner_run\<close>: the agent runtime, \<^verbatim>\<open>Runner.run(agent, query)\<close> awaited: the
    final output, or the exception it raises.
\<close>

record outside =
  agent_instructions_txt :: "(error + string) option"
  Runner_run :: "agent \<Rightarrow> string \<Rightarrow> error + string"

text \<open>
  The state the application changes: the process environment, the calls made to the
  agent runtime, the conversation \<^verbatim>\<open>st.session_state.messages\<close> and the texts shown
  with \<^verbatim>\<open>st.error\<close>.
\<close>

record session =
  os_environ :: env
  agent_calls :: "(agent \<times> string) list"
  messages :: "message list"
  st_errors :: "string list"

text \<open>\<^verbatim>\<open>load_agent_instructions\<close>: only \<^verbatim>\<open>FileNotFoundError\<close> is caught.\<close>

definition fallback_instructions :: string where
  "fallback_instructions =
     ''You are a research assistant who helps users find information using available search tools. Always cite your sources.''"

definition load_agent_instructions :: "(error + string) option \<Rightarrow> error + string" where
  "load_agent_instructions file =
     (case file of
        None \<Rightarrow> Inr fallback_instructions
      | Some (Inl e) \<Rightarrow> Inl e
      | Some (Inr text) \<Rightarrow> Inr (py_strip text))"

text \<open>The two \<^verbatim>\<open>ValueError\<close>s that \<^verbatim>\<open>run_agent\<close> raises.\<close>

definition MissingVectorStore :: error where
  "MissingVectorStore = ValueError ''Document search enabled but Vector Store ID is missing''"

definition NoSourceEnabled :: error where
  "NoSourceEnabled = ValueError ''At least one search source must be enabled''"

text \<open>
  Lines 128 to 147 of \<^verbatim>\<open>run_agent\<close>: the lists \<^verbatim>\<open>tools\<close> and \<^verbatim>\<open>sources_used\<close>, with
  the two checks where the source has them.
\<close>

definition build_tools ::
  "pyval \<Rightarrow> bool \<Rightarrow> bool \<Rightarrow> int \<Rightarrow> error + tool list \<times> string list" where
  "build_tools vs_id enable_web enable_docs max_docs =
     (let tools0 = (if enable_web then [WebSearchTool] else []);
          sources0 = (if enable_web then [''web search''] else [])
      in if enable_docs \<and> \<not> truthy vs_id then Inl MissingVectorStore
         else
           (let tools1 = (if enable_docs
                          then tools0 @ [FileSearchTool max_docs [vs_id]] else tools0);
                sources1 = (if enable_docs
                            then sources0 @ [''vector data store search''] else sources0)
            in if tools1 = [] then Inl NoSourceEnabled else Inr (tools1, sources1)))"

definition nl2 :: string where
  "nl2 = [CHR 0x0A, CHR 0x0A]"

definition document_only_directive :: string where
  "document_only_directive = nl2 @
     ''CURRENT SESSION MODE: DOCUMENT-ONLY SEARCH. You can ONLY use information from the uploaded documents via vector search. Do NOT use any general knowledge, training data, or external information. If the answer is not in the documents, clearly state 'I don't have information about [topic] in the uploaded documents.''
     @ [CHR 0x27]"

definition web_only_directive :: string where
  "web_only_directive = nl2 @
     ''CURRENT SESSION MODE: WEB-ONLY SEARCH. You can only use information from web search results.''"

definition hybrid_directive :: string where
  "hybrid_directive = nl2 @
     ''CURRENT SESSION MODE: HYBRID SEARCH. You have access to both document search and web search. Use both sources appropriately.''"

text \<open>Lines 153 to 161: the \<^verbatim>\<open>if\<close>/\<^verbatim>\<open>elif\<close>/\<^verbatim>\<open>elif\<close> chain, which has no \<^verbatim>\<open>else\<close>.\<close>

definition mode_directive :: "bool \<Rightarrow> bool \<Rightarrow> string" where
  "mode_directive enable_web enable_docs =
     (if enable_docs \<and> \<not> enable_web then document_only_directive
      else if enable_web \<and> \<not> enable_docs then web_only_directive
      else if enable_web \<and> enable_docs then hybrid_directive
      else [])"

definition sources_footer :: "string list \<Rightarrow> string" where
  "sources_footer sources_used =
     nl2 @ ''CURRENT ACTIVE SOURCES: '' @ py_join '' and '' sources_used"

text \<open>
  \<^verbatim>\<open>os.environ[k] = v\<close>: a \<^verbatim>\<open>TypeError\<close> for a \<open>v\<close> that is not a \<^verbatim>\<open>str\<close>, a
  \<^verbatim>\<open>ValueError\<close> for a \<^verbatim>\<open>str\<close> with a NUL character; in both cases nothing is written.
\<close>

definition environ_setitem :: "env \<Rightarrow> string \<Rightarrow> pyval \<Rightarrow> error + env" where
  "environ_setitem e k v =
     (case v of
        PStr text \<Rightarrow>
          if CHR 0x00 \<in> set text then Inl (ValueError ''embedded null byte'')
          else Inr (e(k \<mapsto> text))
      | _ \<Rightarrow> Inl (EnvironTypeError v))"

text \<open>
  \<^verbatim>\<open>run_agent\<close>. \<open>config\<close> is the module's global \<^verbatim>\<open>config\<close>. The assignment to
  \<^verbatim>\<open>os.environ\<close> comes first. The call of the runtime is recorded in \<open>agent_calls\<close>
  before its outcome is known.
\<close>

definition run_agent ::
  "outside \<Rightarrow> settings \<Rightarrow> string \<Rightarrow> pyval \<Rightarrow> pyval \<Rightarrow> bool \<Rightarrow> bool \<Rightarrow> int \<Rightarrow> session \<Rightarrow>
     (error + agent_result) \<times> session" where
  "run_agent out config query api_key vs_id enable_web enable_docs max_docs s =
     (case environ_setitem (os_environ s) ''OPENAI_API_KEY'' api_key of
        Inl e \<Rightarrow> (Inl e, s)
      | Inr written \<Rightarrow>
          (let s1 = s\<lparr>os_environ := written\<rparr>
           in case build_tools vs_id enable_web enable_docs max_docs of
                Inl e \<Rightarrow> (Inl e, s1)
              | Inr (tools_list, sources_used) \<Rightarrow>
                  (case load_agent_instructions (agent_instructions_txt out) of
                     Inl e \<Rightarrow> (Inl e, s1)
                   | Inr base \<Rightarrow>
                       (let a = \<lparr>name = AGENT_NAME config,
                                 instructions = base @ mode_directive enable_web enable_docs
                                                  @ sources_footer sources_used,
                                 tools = tools_list,
                                 model = AGENT_MODEL config\<rparr>;
                            s2 = s1\<lparr>agent_calls := agent_calls s1 @ [(a, query)]\<rparr>
                        in case Runner_run out a query of
                             Inl e \<Rightarrow> (Inl e, s2)
                           | Inr final_output \<Rightarrow>
                               (Inr \<lparr>response = final_output,
                                     metadata = \<lparr>sources_enabled = sources_used,
                                                  web_search = enable_web,
                                                  document_search = enable_docs,
                                                  max_doc_results =
                                                    (if enable_docs then Some max_docs
                                                     else None)\<rparr>\<rparr>,
                                s2)))))"

text \<open>\<^verbatim>\<open>str(e)\<close> for the exceptions above.\<close>

fun type_name :: "pyval \<Rightarrow> string" where
  "type_name PNone = ''NoneType''"
| "type_name (PBool b) = ''bool''"
| "type_name (PInt n) = ''int''"
| "type_name (PStr s) = ''str''"
| "type_name (PList xs) = ''list''"
| "type_name (PDict kvs) = ''dict''"

fun error_str :: "error \<Rightarrow> string" where
  "error_str (ValueError m) = m"
| "error_str (EnvironTypeError v) = ''str expected, not '' @ type_name v"
| "error_str (InstructionsReadError m) = m"
| "error_str (AgentInvocationError m) = m"

text \<open>
  The chat input handler (lines 187 to 224), run when the user has submitted
  \<open>prompt\<close>. \<open>use_web_search\<close>, \<open>use_document_search\<close> and \<open>max_results\<close> are the
  values of the sidebar's widgets. \<^verbatim>\<open>st.rerun()\<close> only redraws the page.
\<close>

definition chat_input ::
  "outside \<Rightarrow> settings \<Rightarrow> bool \<Rightarrow> bool \<Rightarrow> int \<Rightarrow> string \<Rightarrow> session \<Rightarrow> session" where
  "chat_input out config use_web_search use_document_search max_results prompt s =
     (if \<not> truthy (OPENAI_API_KEY config)
      then s\<lparr>st_errors := st_errors s @ [''Please add your OpenAI API Key to the .env file.'']\<rparr>
      else if \<not> truthy (VECTOR_STORE_ID config) \<and> use_document_search
      then s\<lparr>st_errors := st_errors s @
             [''Please add your Vector Store ID to the .env file or disable Document Search.'']\<rparr>
      else if \<not> use_web_search \<and> \<not> use_document_search
      then s\<lparr>st_errors := st_errors s @
             [''Please enable at least one search source in the sidebar.'']\<rparr>
      else
        (let s1 = s\<lparr>messages := messages s @
                     [\<lparr>role = User, content = prompt, message_metadata = None\<rparr>]\<rparr>
         in case run_agent out config prompt (OPENAI_API_KEY config) (VECTOR_STORE_ID config)
                   use_web_search use_document_search max_results s1 of
              (Inr result, s2) \<Rightarrow>
                s2\<lparr>messages := messages s2 @
                     [\<lparr>role = Assistant, content = response result,
                       message_metadata = Some (metadata result)\<rparr>]\<rparr>
            | (Inl e, s2) \<Rightarrow>
                s2\<lparr>messages := messages s2 @
                     [\<lparr>role = Assistant, content = ''Error: '' @ error_str e,
                       message_metadata = None\<rparr>]\<rparr>))"

section \<open>The order of the checks, as the specification words it\<close>

text \<open>
  Section 4.2 of the specification lists the preconditions of a dispatch in this order:
  first that a source is enabled, then that document search has a vector store.
  \<open>spec_preconditions\<close> follows that wording; it is compared with \<open>build_tools\<close>,
  which follows the source, where the test of the vector store is written first.
\<close>

definition spec_preconditions :: "pyval \<Rightarrow> bool \<Rightarrow> bool \<Rightarrow> error option" where
  "spec_preconditions vs_id web_enabled document_enabled =
     (if \<not> (web_enabled \<or> document_enabled) then Some NoSourceEnabled
      else if document_enabled \<and> \<not> truthy vs_id then Some MissingVectorStore
      else None)"

section \<open>Example inputs\<close>













text \<open>A runtime that always answers, no instructions file, a fresh session.\<close>

definition canned_runner :: "agent \<Rightarrow> string \<Rightarrow> error + string" where
  "canned_runner a q = Inr ''final output''"

definition outside_no_file :: outside where
  "outside_no_file = \<lparr>agent_instructions_txt = None, Runner_run = canned_runner\<rparr>"

definition session0 :: session where
  "session0 = \<lparr>os_environ = Map.empty, agent_calls = [], messages = [], st_errors = []\<rparr>"

definition example_run :: "bool \<Rightarrow> bool \<Rightarrow> (error + agent_result) \<times> session" where
  "example_run enable_web enable_docs =
     run_agent outside_no_file get_defaults ''What is new?'' (PStr ''sk-test'') (PStr ''vs_1'')
       enable_web enable_docs 5 session0"

text \<open>An API key with a NUL character, and a session whose environment has a key.\<close>

definition nul_key :: string where
  "nul_key = [CHR ''a'', CHR 0x00, CHR ''b'']"

definition session_old_key :: session where
  "session_old_key =
     \<lparr>os_environ = [''OPENAI_API_KEY'' \<mapsto> ''old''], agent_calls = [], messages = [],
      st_errors = []\<rparr>"

section \<open>Properties of the resolution\<close>






text \<open>\<open>py_strip\<close> on a text with white space outside ASCII at both ends.\<close>

lemma py_strip_example:
  "py_strip ([CHR 0xC2, CHR 0xA0, CHR 0x0A] @ ''Be brief. '' @
             [CHR 0xE2, CHR 0x80, CHR 0x83, CHR 0x0A]) = ''Be brief.''"
  by (simp add: py_strip_def white_space_def)














section \<open>Properties of the agent invocation\<close>

lemma build_tools_none: "build_tools vs_id False False m = Inl NoSourceEnabled"
  by (simp add: build_tools_def)

lemma build_tools_missing:
  "\<not> truthy vs_id \<Longrightarrow> build_tools vs_id enable_web True m = Inl MissingVectorStore"
  by (simp add: build_tools_def)

lemma build_tools_ok:
  "build_tools vs_id enable_web enable_docs m = Inr (ts, srcs) \<Longrightarrow>
   (enable_web \<or> enable_docs) \<and>
   srcs = (if enable_web then [''web search''] else []) @
          (if enable_docs then [''vector data store search''] else [])"
  by (auto simp: build_tools_def Let_def split: if_splits)

lemma environ_setitem_str:
  "CHR 0x00 \<notin> set key \<Longrightarrow> environ_setitem e k (PStr key) = Inr (e(k \<mapsto> key))"
  by (simp add: environ_setitem_def)

lemma environ_setitem_nul: "environ_setitem e k (PStr nul_key) = Inl (ValueError ''embedded null byte'')"
  by (simp add: environ_setitem_def nul_key_def)

lemma environ_setitem_Inr:
  "environ_setitem e k v = Inr written \<Longrightarrow>
   \<exists>key. v = PStr key \<and> CHR 0x00 \<notin> set key \<and> written = e(k \<mapsto> key)"
  by (cases v) (auto simp: environ_setitem_def split: if_splits)

text \<open>When the write to the environment fails, \<open>run_agent\<close> has done nothing.\<close>

lemma run_agent_write_fails:
  "environ_setitem (os_environ s) ''OPENAI_API_KEY'' api_key = Inl e \<Longrightarrow>
   run_agent out config query api_key vs_id enable_web enable_docs m s = (Inl e, s)"
  by (simp add: run_agent_def)

text \<open>\<open>run_agent\<close> for an API key that is a \<^verbatim>\<open>str\<close> without NUL.\<close>

lemma run_agent_str:
  "CHR 0x00 \<notin> set key \<Longrightarrow>
   run_agent out config query (PStr key) vs_id enable_web enable_docs m s =
     (let s1 = s\<lparr>os_environ := (os_environ s)(''OPENAI_API_KEY'' \<mapsto> key)\<rparr>
      in case build_tools vs_id enable_web enable_docs m of
           Inl e \<Rightarrow> (Inl e, s1)
         | Inr (tools_list, sources_used) \<Rightarrow>
             (case load_agent_instructions (agent_instructions_txt out) of
                Inl e \<Rightarrow> (Inl e, s1)
              | Inr base \<Rightarrow>
                  (let a = \<lparr>name = AGENT_NAME config,
                            instructions = base @ mode_directive enable_web enable_docs
                                             @ sources_footer sources_used,
                            tools = tools_list,
                            model = AGENT_MODEL config\<rparr>;
                       s2 = s1\<lparr>agent_calls := agent_calls s1 @ [(a, query)]\<rparr>
                   in case Runner_run out a query of
                        Inl e \<Rightarrow> (Inl e, s2)
                      | Inr final_output \<Rightarrow>
                          (Inr \<lparr>response = final_output,
                                metadata = \<lparr>sources_enabled = sources_used,
                                             web_search = enable_web,
                                             document_search = enable_docs,
                                             max_doc_results =
                                               (if enable_docs then Some m else None)\<rparr>\<rparr>,
                           s2))))"
  by (simp add: run_agent_def environ_setitem_str)

text \<open>What a run that returns a result has done.\<close>

lemma run_agent_success:
  assumes "fst (run_agent out config query api_key vs_id enable_web enable_docs m s) = Inr r"
  shows "\<exists>key ts base.
           api_key = PStr key \<and> CHR 0x00 \<notin> set key \<and>
           build_tools vs_id enable_web enable_docs m =
             Inr (ts, (if enable_web then [''web search''] else []) @
                      (if enable_docs then [''vector data store search''] else [])) \<and>
           (enable_web \<or> enable_docs) \<and>
           load_agent_instructions (agent_instructions_txt out) = Inr base \<and>
           metadata r = \<lparr>sources_enabled = (if enable_web then [''web search''] else []) @
                                (if enable_docs then [''vector data store search''] else []),
                          web_search = enable_web, document_search = enable_docs,
                          max_doc_results = (if enable_docs then Some m else None)\<rparr> \<and>
           snd (run_agent out config query api_key vs_id enable_web enable_docs m s) =
             s\<lparr>os_environ := (os_environ s)(''OPENAI_API_KEY'' \<mapsto> key),
               agent_calls := agent_calls s @
                 [(\<lparr>name = AGENT_NAME config,
                    instructions = base @ mode_directive enable_web enable_docs @
                      sources_footer ((if enable_web then [''web search''] else []) @
                                      (if enable_docs then [''vector data store search''] else [])),
                    tools = ts, model = AGENT_MODEL config\<rparr>, query)]\<rparr>"
proof -
  obtain written where
    "environ_setitem (os_environ s) ''OPENAI_API_KEY'' api_key = Inr written"
    using assms
    by (cases "environ_setitem (os_environ s) ''OPENAI_API_KEY'' api_key")
      (simp_all add: run_agent_write_fails)
  then obtain key where k: "api_key = PStr key" and z: "CHR 0x00 \<notin> set key"
    using environ_setitem_Inr by blast
  note ra = run_agent_str [OF z]
  obtain ts srcs where b: "build_tools vs_id enable_web enable_docs m = Inr (ts, srcs)"
    using assms unfolding k ra
    by (cases "build_tools vs_id enable_web enable_docs m") (auto simp: Let_def)
  note bo = build_tools_ok [OF b]
  obtain base where l: "load_agent_instructions (agent_instructions_txt out) = Inr base"
    using assms unfolding k ra b
    by (cases "load_agent_instructions (agent_instructions_txt out)") (auto simp: Let_def)
  show ?thesis
    using assms bo b z unfolding k ra l
    by (auto simp: Let_def split: sum.splits)
qed

lemma example_run_result:
  "enable_web \<or> enable_docs \<Longrightarrow>
   fst (example_run enable_web enable_docs) =
     Inr \<lparr>response = ''final output'',
          metadata = \<lparr>sources_enabled = (if enable_web then [''web search''] else []) @
                         (if enable_docs then [''vector data store search''] else []),
                       web_search = enable_web, document_search = enable_docs,
                       max_doc_results = (if enable_docs then Some 5 else None)\<rparr>\<rparr>"
  by (auto simp: example_run_def run_agent_str build_tools_def outside_no_file_def
      load_agent_instructions_def canned_runner_def Let_def)

lemma run_agent_no_source:
  "agent_calls (snd (run_agent out config query api_key vs_id False False m s)) = agent_calls s \<and>
   (\<forall>r. fst (run_agent out config query api_key vs_id False False m s) \<noteq> Inr r)"
proof (cases "environ_setitem (os_environ s) ''OPENAI_API_KEY'' api_key")
  case (Inl e)
  then show ?thesis by (simp add: run_agent_write_fails)
next
  case (Inr written)
  then show ?thesis by (simp add: run_agent_def build_tools_none)
qed

text \<open>
  C2, as amended. With web search and document search both off and an API key that is
  a \<^verbatim>\<open>str\<close> without a NUL character, \<open>run_agent\<close> raises the \<^verbatim>\<open>ValueError\<close> "At least
  one search source must be enabled", whatever the settings, the vector store and the
  maximum are. For any API key at all it makes no call to the agent runtime and
  returns no result. The chat input handler, for these two checkboxes, neither calls
  the runtime nor adds a message to the conversation.
\<close>

theorem no_source_enabled_fails:
  assumes "CHR 0x00 \<notin> set key"
  shows "run_agent out config query (PStr key) vs_id False False m s =
           (Inl NoSourceEnabled,
            s\<lparr>os_environ := (os_environ s)(''OPENAI_API_KEY'' \<mapsto> key)\<rparr>) \<and>
         NoSourceEnabled = ValueError ''At least one search source must be enabled'' \<and>
         agent_calls (snd (run_agent out config query api_key vs_id False False m s))
           = agent_calls s \<and>
         (\<forall>r. fst (run_agent out config query api_key vs_id False False m s) \<noteq> Inr r) \<and>
         agent_calls (chat_input out config False False m query s) = agent_calls s \<and>
         messages (chat_input out config False False m query s) = messages s"
proof -
  have "run_agent out config query (PStr key) vs_id False False m s =
           (Inl NoSourceEnabled,
            s\<lparr>os_environ := (os_environ s)(''OPENAI_API_KEY'' \<mapsto> key)\<rparr>)"
    by (simp add: run_agent_str [OF assms] build_tools_none)
  moreover have "agent_calls (chat_input out config False False m query s) = agent_calls s"
    "messages (chat_input out config False False m query s) = messages s"
    by (simp_all add: chat_input_def)
  ultimately show ?thesis
    using run_agent_no_source [of out config query api_key vs_id m s]
    by (simp add: NoSourceEnabled_def)
qed

text \<open>The theorem at the key \<^verbatim>\<open>sk-test\<close> in a fresh session.\<close>

theorem no_source_enabled_fails_witness:
  "CHR 0x00 \<notin> set ''sk-test'' \<and>
   run_agent outside_no_file get_defaults ''What is new?'' (PStr ''sk-test'') (PStr ''vs_1'')
     False False 5 session0 =
     (Inl (ValueError ''At least one search source must be enabled''),
      session0\<lparr>os_environ := [''OPENAI_API_KEY'' \<mapsto> ''sk-test'']\<rparr>)"
proof -
  have h: "CHR 0x00 \<notin> set ''sk-test''" by simp
  from no_source_enabled_fails [OF h, where out = outside_no_file and config = get_defaults
      and query = "''What is new?''" and vs_id = "PStr ''vs_1''" and m = 5 and s = session0]
  show ?thesis using h by (simp add: session0_def)
qed

text \<open>
  C2 as stated fails: with the API key \<open>nul_key\<close> and both sources off, the assignment
  to \<^verbatim>\<open>os.environ\<close> raises "embedded null byte" before any check, and that is the error
  of the dispatch, not the one for no source enabled.
\<close>

theorem no_source_enabled_counterexample:
  "fst (run_agent outside_no_file get_defaults ''What is new?'' (PStr nul_key) (PStr ''vs_1'')
          False False 5 session0) = Inl (ValueError ''embedded null byte'') \<and>
   ValueError ''embedded null byte'' \<noteq> NoSourceEnabled"
  by (simp add: run_agent_write_fails [OF environ_setitem_nul] NoSourceEnabled_def)

text \<open>
  C3, as amended. With document search on, an empty vector store id and an API key that
  is a \<^verbatim>\<open>str\<close> without a NUL character, \<open>run_agent\<close> raises the \<^verbatim>\<open>ValueError\<close> "Document
  search enabled but Vector Store ID is missing", with web search on or off. The
  failure of the two checks of \<open>build_tools\<close> is the one that the checks in the order of
  the specification give, for every input: first no source enabled, then the missing
  vector store; the two exceptions differ. The chat input handler, with document
  search on and an empty vector store id in the settings, neither calls the runtime
  nor adds a message.
\<close>

theorem missing_vector_store_fails:
  assumes "CHR 0x00 \<notin> set key"
  shows "run_agent out config query (PStr key) (PStr []) enable_web True m s =
           (Inl MissingVectorStore,
            s\<lparr>os_environ := (os_environ s)(''OPENAI_API_KEY'' \<mapsto> key)\<rparr>) \<and>
         MissingVectorStore =
           ValueError ''Document search enabled but Vector Store ID is missing'' \<and>
         (case build_tools vs_id enable_web enable_docs m of Inl e \<Rightarrow> Some e | Inr ok \<Rightarrow> None)
           = spec_preconditions vs_id enable_web enable_docs \<and>
         NoSourceEnabled \<noteq> MissingVectorStore \<and>
         agent_calls (chat_input out (config(''VECTOR_STORE_ID'' \<mapsto> PStr [])) enable_web True m
                        query s) = agent_calls s \<and>
         messages (chat_input out (config(''VECTOR_STORE_ID'' \<mapsto> PStr [])) enable_web True m
                     query s) = messages s"
proof -
  have "run_agent out config query (PStr key) (PStr []) enable_web True m s =
           (Inl MissingVectorStore,
            s\<lparr>os_environ := (os_environ s)(''OPENAI_API_KEY'' \<mapsto> key)\<rparr>)"
    by (simp add: run_agent_str [OF assms] build_tools_missing)
  moreover have
    "(case build_tools vs_id enable_web enable_docs m of Inl e \<Rightarrow> Some e | Inr ok \<Rightarrow> None)
       = spec_preconditions vs_id enable_web enable_docs"
    by (auto simp: build_tools_def spec_preconditions_def Let_def)
  moreover have
    "agent_calls (chat_input out (config(''VECTOR_STORE_ID'' \<mapsto> PStr [])) enable_web True m
                    query s) = agent_calls s"
    "messages (chat_input out (config(''VECTOR_STORE_ID'' \<mapsto> PStr [])) enable_web True m
                 query s) = messages s"
    by (simp_all add: chat_input_def VECTOR_STORE_ID_def dict_get_def)
  ultimately show ?thesis
    by (simp add: NoSourceEnabled_def MissingVectorStore_def)
qed

text \<open>The theorem at the key \<^verbatim>\<open>sk-test\<close> with web search on, in a fresh session.\<close>

theorem missing_vector_store_fails_witness:
  "CHR 0x00 \<notin> set ''sk-test'' \<and>
   run_agent outside_no_file get_defaults ''What is new?'' (PStr ''sk-test'') (PStr [])
     True True 5 session0 =
     (Inl (ValueError ''Document search enabled but Vector Store ID is missing''),
      session0\<lparr>os_environ := [''OPENAI_API_KEY'' \<mapsto> ''sk-test'']\<rparr>)"
proof -
  have h: "CHR 0x00 \<notin> set ''sk-test''" by simp
  from missing_vector_store_fails [OF h, where out = outside_no_file and config = get_defaults
      and query = "''What is new?''" and enable_web = True and m = 5 and s = session0]
  show ?thesis using h by (simp add: session0_def)
qed

text \<open>
  C3 as stated fails: with the API key \<open>nul_key\<close>, document search on and an empty
  vector store id, the dispatch fails with "embedded null byte", not with the error
  for the missing vector store.
\<close>

theorem missing_vector_store_counterexample:
  "fst (run_agent outside_no_file get_defaults ''What is new?'' (PStr nul_key) (PStr [])
          True True 5 session0) = Inl (ValueError ''embedded null byte'') \<and>
   ValueError ''embedded null byte'' \<noteq> MissingVectorStore"
  by (simp add: run_agent_write_fails [OF environ_setitem_nul] MissingVectorStore_def)

text \<open>
  C6. When \<open>run_agent\<close> returns a result, it has made one call to the runtime, and the
  instructions of the agent it passed are: the base instructions (the stripped text of
  \<^verbatim>\<open>agent_instructions.txt\<close>, or the built-in text when the file is not found), then
  the directive of the mode, then the line of the active sources joined with " and ".
  One of the three modes applies. With both sources on, \<open>sources_enabled\<close> is
  "web search" followed by "vector data store search".
\<close>

theorem instruction_text_by_mode:
  assumes "fst (run_agent out config query api_key vs_id enable_web enable_docs m s) = Inr r"
  shows "\<exists>base a.
           load_agent_instructions (agent_instructions_txt out) = Inr base \<and>
           agent_calls (snd (run_agent out config query api_key vs_id enable_web enable_docs m s))
             = agent_calls s @ [(a, query)] \<and>
           (enable_web \<or> enable_docs) \<and>
           (enable_docs \<and> \<not> enable_web \<longrightarrow>
              instructions a = base @ [CHR 0x0A, CHR 0x0A] @
                ''CURRENT SESSION MODE: DOCUMENT-ONLY SEARCH. You can ONLY use information from the uploaded documents via vector search. Do NOT use any general knowledge, training data, or external information. If the answer is not in the documents, clearly state 'I don't have information about [topic] in the uploaded documents.''
                @ [CHR 0x27] @ [CHR 0x0A, CHR 0x0A] @
                ''CURRENT ACTIVE SOURCES: vector data store search'') \<and>
           (enable_web \<and> \<not> enable_docs \<longrightarrow>
              instructions a = base @ [CHR 0x0A, CHR 0x0A] @
                ''CURRENT SESSION MODE: WEB-ONLY SEARCH. You can only use information from web search results.''
                @ [CHR 0x0A, CHR 0x0A] @ ''CURRENT ACTIVE SOURCES: web search'') \<and>
           (enable_web \<and> enable_docs \<longrightarrow>
              instructions a = base @ [CHR 0x0A, CHR 0x0A] @
                ''CURRENT SESSION MODE: HYBRID SEARCH. You have access to both document search and web search. Use both sources appropriately.''
                @ [CHR 0x0A, CHR 0x0A] @
                ''CURRENT ACTIVE SOURCES: web search and vector data store search'' \<and>
              sources_enabled (metadata r) = [''web search'', ''vector data store search''])"
proof -
  from run_agent_success [OF assms] obtain key ts base where
    l: "load_agent_instructions (agent_instructions_txt out) = Inr base" and
    w: "enable_web \<or> enable_docs" and
    md: "metadata r = \<lparr>sources_enabled = (if enable_web then [''web search''] else []) @
                                (if enable_docs then [''vector data store search''] else []),
                          web_search = enable_web, document_search = enable_docs,
                          max_doc_results = (if enable_docs then Some m else None)\<rparr>" and
    sn: "snd (run_agent out config query api_key vs_id enable_web enable_docs m s) =
             s\<lparr>os_environ := (os_environ s)(''OPENAI_API_KEY'' \<mapsto> key),
               agent_calls := agent_calls s @
                 [(\<lparr>name = AGENT_NAME config,
                    instructions = base @ mode_directive enable_web enable_docs @
                      sources_footer ((if enable_web then [''web search''] else []) @
                                      (if enable_docs then [''vector data store search''] else [])),
                    tools = ts, model = AGENT_MODEL config\<rparr>, query)]\<rparr>"
    by blast
  show ?thesis
    using l w md unfolding sn
    by (simp add: mode_directive_def sources_footer_def nl2_def document_only_directive_def
        web_only_directive_def hybrid_directive_def)
qed

text \<open>
  The theorem at three runs with no instructions file, one for each mode: hybrid, web
  only, documents only.
\<close>

theorem instruction_text_by_mode_witness:
  "fst (example_run True True) =
     Inr \<lparr>response = ''final output'',
          metadata = \<lparr>sources_enabled = [''web search'', ''vector data store search''],
                       web_search = True, document_search = True,
                       max_doc_results = Some 5\<rparr>\<rparr> \<and>
   (\<exists>a. agent_calls (snd (example_run True True)) = [(a, ''What is new?'')] \<and>
        instructions a = fallback_instructions @ [CHR 0x0A, CHR 0x0A] @
          ''CURRENT SESSION MODE: HYBRID SEARCH. You have access to both document search and web search. Use both sources appropriately.''
          @ [CHR 0x0A, CHR 0x0A] @
          ''CURRENT ACTIVE SOURCES: web search and vector data store search'') \<and>
   (\<exists>a. agent_calls (snd (example_run True False)) = [(a, ''What is new?'')] \<and>
        instructions a = fallback_instructions @ [CHR 0x0A, CHR 0x0A] @
          ''CURRENT SESSION MODE: WEB-ONLY SEARCH. You can only use information from web search results.''
          @ [CHR 0x0A, CHR 0x0A] @ ''CURRENT ACTIVE SOURCES: web search'') \<and>
   (\<exists>a. agent_calls (snd (example_run False True)) = [(a, ''What is new?'')] \<and>
        instructions a = fallback_instructions @ [CHR 0x0A, CHR 0x0A] @
          ''CURRENT SESSION MODE: DOCUMENT-ONLY SEARCH. You can ONLY use information from the uploaded documents via vector search. Do NOT use any general knowledge, training data, or external information. If the answer is not in the documents, clearly state 'I don't have information about [topic] in the uploaded documents.''
          @ [CHR 0x27] @ [CHR 0x0A, CHR 0x0A] @
          ''CURRENT ACTIVE SOURCES: vector data store search'')"
proof -
  have h: "fst (example_run True True) =
     Inr \<lparr>response = ''final output'',
          metadata = \<lparr>sources_enabled = [''web search'', ''vector data store search''],
                       web_search = True, document_search = True,
                       max_doc_results = Some 5\<rparr>\<rparr>"
    and hw: "fst (example_run True False) =
     Inr \<lparr>response = ''final output'',
          metadata = \<lparr>sources_enabled = [''web search''],
                       web_search = True, document_search = False,
                       max_doc_results = None\<rparr>\<rparr>"
    and hd: "fst (example_run False True) =
     Inr \<lparr>response = ''final output'',
          metadata = \<lparr>sources_enabled = [''vector data store search''],
                       web_search = False, document_search = True,
                       max_doc_results = Some 5\<rparr>\<rparr>"
    by (simp_all add: example_run_result)
  have f: "load_agent_instructions (agent_instructions_txt outside_no_file) = Inr b \<longleftrightarrow>
           b = fallback_instructions" for b
    by (auto simp: load_agent_instructions_def outside_no_file_def)
  have s0: "agent_calls session0 = []" by (simp add: session0_def)
  show ?thesis
    using h instruction_text_by_mode [OF h [unfolded example_run_def]]
      instruction_text_by_mode [OF hw [unfolded example_run_def]]
      instruction_text_by_mode [OF hd [unfolded example_run_def]]
    unfolding f s0 example_run_def [symmetric]
    by auto
qed

text \<open>
  C7. When \<open>run_agent\<close> returns a result, \<open>max_doc_results\<close> of its metadata is the
  maximum it was given if document search is on, and \<open>None\<close> otherwise; a web-only run
  has exactly the metadata \<open>sources_enabled = ["web search"]\<close>, \<open>web_search = True\<close>,
  \<open>document_search = False\<close>, \<open>max_doc_results = None\<close>.
\<close>

theorem metadata_max_doc_results:
  assumes "fst (run_agent out config query api_key vs_id enable_web enable_docs m s) = Inr r"
  shows "max_doc_results (metadata r) = (if enable_docs then Some m else None) \<and>
         (enable_web \<and> \<not> enable_docs \<longrightarrow>
            metadata r = \<lparr>sources_enabled = [''web search''], web_search = True,
                           document_search = False, max_doc_results = None\<rparr>)"
  using run_agent_success [OF assms] by auto

text \<open>The theorem at a web-only run and at a documents-only run with maximum 5.\<close>

theorem metadata_max_doc_results_witness:
  "(\<exists>r. fst (example_run True False) = Inr r \<and>
        metadata r = \<lparr>sources_enabled = [''web search''], web_search = True,
                       document_search = False, max_doc_results = None\<rparr>) \<and>
   (\<exists>r. fst (example_run False True) = Inr r \<and> max_doc_results (metadata r) = Some 5)"
proof -
  obtain rw where hw: "fst (example_run True False) = Inr rw"
    by (simp add: example_run_result)
  obtain rd where hd: "fst (example_run False True) = Inr rd"
    by (simp add: example_run_result)
  from metadata_max_doc_results [OF hw [unfolded example_run_def]]
    metadata_max_doc_results [OF hd [unfolded example_run_def]]
  show ?thesis using hw hd by simp
qed

text \<open>
  C9, as amended. Every run of \<open>run_agent\<close> with an API key \<open>key\<close> that is a \<^verbatim>\<open>str\<close>
  without a NUL character leaves the process environment with \<^verbatim>\<open>OPENAI_API_KEY\<close> bound
  to \<open>key\<close> and otherwise as it was, also when it raises while building the tools: the
  write comes before them.
\<close>

theorem api_key_written_to_environ:
  assumes "CHR 0x00 \<notin> set key"
  shows "os_environ (snd (run_agent out config query (PStr key) vs_id enable_web enable_docs m s))
           = (os_environ s)(''OPENAI_API_KEY'' \<mapsto> key) \<and>
         run_agent out config query (PStr key) vs_id False False m s =
           (Inl NoSourceEnabled,
            s\<lparr>os_environ := (os_environ s)(''OPENAI_API_KEY'' \<mapsto> key)\<rparr>)"
proof
  note ra = run_agent_str [OF assms]
  show "os_environ (snd (run_agent out config query (PStr key) vs_id enable_web enable_docs m s))
     = (os_environ s)(''OPENAI_API_KEY'' \<mapsto> key)"
  proof (cases "build_tools vs_id enable_web enable_docs m")
    case (Inl e)
    then show ?thesis by (simp add: ra)
  next
    case (Inr built)
    then show ?thesis
      by (cases built) (simp add: ra Let_def split: sum.splits)
  qed
next
  show "run_agent out config query (PStr key) vs_id False False m s =
     (Inl NoSourceEnabled, s\<lparr>os_environ := (os_environ s)(''OPENAI_API_KEY'' \<mapsto> key)\<rparr>)"
    by (simp add: run_agent_str [OF assms] build_tools_none)
qed

text \<open>
  The theorem at a web-only run with the key \<^verbatim>\<open>sk-test\<close>, in a session whose
  environment had another key: the new key replaces it.
\<close>

theorem api_key_written_to_environ_witness:
  "CHR 0x00 \<notin> set ''sk-test'' \<and>
   os_environ session_old_key ''OPENAI_API_KEY'' = Some ''old'' \<and>
   os_environ (snd (run_agent outside_no_file get_defaults ''What is new?'' (PStr ''sk-test'')
                      (PStr ''vs_1'') True False 5 session_old_key)) ''OPENAI_API_KEY''
     = Some ''sk-test''"
proof -
  have h: "CHR 0x00 \<notin> set ''sk-test''" by simp
  from api_key_written_to_environ [OF h, where out = outside_no_file and config = get_defaults
      and query = "''What is new?''" and vs_id = "PStr ''vs_1''" and enable_web = True
      and enable_docs = False and m = 5 and s = session_old_key]
  show ?thesis using h by (simp add: session_old_key_def)
qed

text \<open>
  C9 as stated fails: a run with the API key \<open>nul_key\<close> raises at the assignment, and
  the variable keeps the value it had.
\<close>

theorem api_key_written_counterexample:
  "os_environ (snd (run_agent outside_no_file get_defaults ''What is new?'' (PStr nul_key)
                      (PStr ''vs_1'') True False 5 session_old_key)) ''OPENAI_API_KEY''
     = Some ''old'' \<and>
   Some ''old'' \<noteq> Some nul_key"
proof -
  have "run_agent outside_no_file get_defaults ''What is new?'' (PStr nul_key)
          (PStr ''vs_1'') True False 5 session_old_key
        = (Inl (ValueError ''embedded null byte''), session_old_key)"
    by (rule run_agent_write_fails [OF environ_setitem_nul])
  then show ?thesis by (simp add: session_old_key_def nul_key_def)
qed

text \<open>
  C10. \<open>run_agent\<close> and the chat input handler do not read the setting
  \<^verbatim>\<open>AGENT_INSTRUCTIONS\<close>: changing or removing that entry of the configuration changes
  neither the result nor the session, which holds the agent passed to the runtime and
  with it the instruction text.
\<close>

theorem agent_instructions_setting_unused:
  "run_agent out (config(''AGENT_INSTRUCTIONS'' := v)) query api_key vs_id enable_web enable_docs m s
     = run_agent out config query api_key vs_id enable_web enable_docs m s \<and>
   chat_input out (config(''AGENT_INSTRUCTIONS'' := v)) enable_web enable_docs m query s
     = chat_input out config enable_web enable_docs m query s"
proof -
  have a: "AGENT_NAME (config(''AGENT_INSTRUCTIONS'' := v)) = AGENT_NAME config"
    "AGENT_MODEL (config(''AGENT_INSTRUCTIONS'' := v)) = AGENT_MODEL config"
    "OPENAI_API_KEY (config(''AGENT_INSTRUCTIONS'' := v)) = OPENAI_API_KEY config"
    "VECTOR_STORE_ID (config(''AGENT_INSTRUCTIONS'' := v)) = VECTOR_STORE_ID config"
    by (simp_all add: AGENT_NAME_def AGENT_MODEL_def OPENAI_API_KEY_def VECTOR_STORE_ID_def
        dict_get_def)
  have r: "run_agent out (config(''AGENT_INSTRUCTIONS'' := v)) q k vs ew ed mm ss
     = run_agent out config q k vs ew ed mm ss" for q k vs ew ed mm ss
    unfolding run_agent_def a by (rule refl)
  show ?thesis unfolding chat_input_def a r by (rule conjI) (rule refl)+
qed

end
